theory Spec2Isabelle
  imports Main
begin

section \<open>The InChI API header\<close>

text \<open>
  The file \<^verbatim>\<open>src/3rd/inchi_api.h\<close> declares the interface of the InChI library for a
  foreign-function binding. It holds type aliases, object-like macros, five struct types
  and six function prototypes, and no function body. The development below writes every
  declaration of the header down as a HOL value, in the order of the header and under the
  header's names, and proves the properties of the declared interface from these values.
  The macro \<^verbatim>\<open>INCHI_API\<close> (empty, or a DLL import attribute on Windows) and the include
  guard carry no type information and are left out.
\<close>

subsection \<open>C types\<close>

text \<open>
  The type expressions that occur in the header. \<^verbatim>\<open>short\<close> and \<^verbatim>\<open>signed short\<close> name the
  same C type, so both are \<open>C_short\<close>. A struct type carries its tag and its member
  declarations in declaration order, each member as (name, type). \<open>C_array t n\<close> is
  \<^verbatim>\<open>t[n]\<close>, so \<^verbatim>\<open>unsigned long w[2][2]\<close> is an array of two arrays of two.
\<close>

datatype ctype =
    C_void
  | C_char
  | C_signed_char
  | C_unsigned_char
  | C_short
  | C_unsigned_short
  | C_int
  | C_unsigned_long
  | C_double
  | C_const ctype
  | C_ptr ctype
  | C_array ctype nat
  | C_struct string "(string \<times> ctype) list"

text \<open>The members of a struct type, in declaration order; no members for any other type.\<close>

fun members :: "ctype \<Rightarrow> (string \<times> ctype) list" where
  "members (C_struct tag fs) = fs"
| "members _ = []"

definition field_names :: "ctype \<Rightarrow> string list" where
  "field_names t = map fst (members t)"

definition field_type :: "ctype \<Rightarrow> string \<Rightarrow> ctype option" where
  "field_type t f = map_of (members t) f"

text \<open>The number of entries of an array type.\<close>

fun array_len :: "ctype \<Rightarrow> nat option" where
  "array_len (C_array t n) = Some n"
| "array_len _ = None"

fun elem_type :: "ctype \<Rightarrow> ctype option" where
  "elem_type (C_array t n) = Some t"
| "elem_type _ = None"

text \<open>The number of entries of the array member \<open>f\<close> of the struct type \<open>t\<close>.\<close>

definition field_len :: "ctype \<Rightarrow> string \<Rightarrow> nat option" where
  "field_len t f = (case field_type t f of None \<Rightarrow> None | Some ty \<Rightarrow> array_len ty)"

text \<open>
  A function prototype: the return type and the parameters in order, each as (name, type).
\<close>

record prototype =
  ret_type :: ctype
  params :: "(string \<times> ctype) list"

text \<open>
  Two tests on a parameter's declared type; both read the declaration only and say nothing
  about what a function body does. A parameter is declared const when it is itself
  const-qualified (\<^verbatim>\<open>const int n\<close>) or points to a const-qualified object
  (\<^verbatim>\<open>const char* s\<close>). A parameter is a pointer to non-const when, under any const
  qualifier of its own (\<^verbatim>\<open>char* buf\<close>, \<^verbatim>\<open>char* const buf\<close>), it is a pointer to an object
  that is not const-qualified.
\<close>

fun declared_const :: "ctype \<Rightarrow> bool" where
  "declared_const (C_const t) = True"
| "declared_const (C_ptr (C_const t)) = True"
| "declared_const _ = False"

fun nonconst_pointer :: "ctype \<Rightarrow> bool" where
  "nonconst_pointer (C_const t) = nonconst_pointer t"
| "nonconst_pointer (C_ptr (C_const t)) = False"
| "nonconst_pointer (C_ptr t) = True"
| "nonconst_pointer _ = False"

definition const_params :: "prototype \<Rightarrow> string list" where
  "const_params p = map fst (filter (\<lambda>q. declared_const (snd q)) (params p))"

definition nonconst_pointer_params :: "prototype \<Rightarrow> string list" where
  "nonconst_pointer_params p = map fst (filter (\<lambda>q. nonconst_pointer (snd q)) (params p))"

subsection \<open>Basic types\<close>

text \<open>
  \<^verbatim>\<open>
  typedef signed short   AT_NUM;      /* atom number */
  typedef unsigned short NUM_H;       /* number of hydrogen atoms */
  typedef signed char    S_CHAR;      /* signed char */
  typedef unsigned char  U_CHAR;      /* unsigned char */
  typedef short          S_SHORT;     /* signed short */
  typedef unsigned short U_SHORT;     /* unsigned short */
  \<close>
\<close>

definition AT_NUM :: ctype where "AT_NUM = C_short"
definition NUM_H :: ctype where "NUM_H = C_unsigned_short"
definition S_CHAR :: ctype where "S_CHAR = C_signed_char"
definition U_CHAR :: ctype where "U_CHAR = C_unsigned_char"
definition S_SHORT :: ctype where "S_SHORT = C_short"
definition U_SHORT :: ctype where "U_SHORT = C_unsigned_short"

subsection \<open>InChI limits\<close>

text \<open>
  \<^verbatim>\<open>
  #define ATOM_EL_LEN             6   /* chemical element length */
  #define NUM_H_ISOTOPES          3   /* number of hydrogen isotopes: 1H, 2H(D), 3H(T) */
  #define ISOTOPIC_SHIFT_FLAG     10000  /* isotopic shift flag */
  #define ISOTOPIC_SHIFT_MAX      100    /* isotopic shift max value */
  \<close>
\<close>

definition ATOM_EL_LEN :: nat where "ATOM_EL_LEN = 6"
definition NUM_H_ISOTOPES :: nat where "NUM_H_ISOTOPES = 3"
definition ISOTOPIC_SHIFT_FLAG :: nat where "ISOTOPIC_SHIFT_FLAG = 10000"
definition ISOTOPIC_SHIFT_MAX :: nat where "ISOTOPIC_SHIFT_MAX = 100"

subsection \<open>Bond types\<close>

definition INCHI_BOND_TYPE_NONE :: int where "INCHI_BOND_TYPE_NONE = 0"
definition INCHI_BOND_TYPE_SINGLE :: int where "INCHI_BOND_TYPE_SINGLE = 1"
definition INCHI_BOND_TYPE_DOUBLE :: int where "INCHI_BOND_TYPE_DOUBLE = 2"
definition INCHI_BOND_TYPE_TRIPLE :: int where "INCHI_BOND_TYPE_TRIPLE = 3"
text \<open>\<^verbatim>\<open>/* aromatic */\<close>\<close>
definition INCHI_BOND_TYPE_ALTERN :: int where "INCHI_BOND_TYPE_ALTERN = 4"

subsection \<open>Bond stereo\<close>

text \<open>The header lists these eight in the order below, which is not the order of their values.\<close>

definition INCHI_BOND_STEREO_NONE :: int where "INCHI_BOND_STEREO_NONE = 0"
definition INCHI_BOND_STEREO_SINGLE_1UP :: int where "INCHI_BOND_STEREO_SINGLE_1UP = 1"
definition INCHI_BOND_STEREO_SINGLE_1DOWN :: int where "INCHI_BOND_STEREO_SINGLE_1DOWN = 6"
definition INCHI_BOND_STEREO_SINGLE_2UP :: int where "INCHI_BOND_STEREO_SINGLE_2UP = 4"
definition INCHI_BOND_STEREO_SINGLE_2DOWN :: int where "INCHI_BOND_STEREO_SINGLE_2DOWN = 5"
definition INCHI_BOND_STEREO_SINGLE_1EITHER :: int where "INCHI_BOND_STEREO_SINGLE_1EITHER = 2"
definition INCHI_BOND_STEREO_SINGLE_2EITHER :: int where "INCHI_BOND_STEREO_SINGLE_2EITHER = 3"
definition INCHI_BOND_STEREO_DOUBLE_EITHER :: int where "INCHI_BOND_STEREO_DOUBLE_EITHER = 7"

subsection \<open>Stereo parity\<close>

definition INCHI_PARITY_NONE :: int where "INCHI_PARITY_NONE = 0"
definition INCHI_PARITY_ODD :: int where "INCHI_PARITY_ODD = 1"
definition INCHI_PARITY_EVEN :: int where "INCHI_PARITY_EVEN = 2"
definition INCHI_PARITY_UNKNOWN :: int where "INCHI_PARITY_UNKNOWN = 3"
definition INCHI_PARITY_UNDEFINED :: int where "INCHI_PARITY_UNDEFINED = 4"

subsection \<open>Stereo types\<close>

definition INCHI_StereoType_None :: int where "INCHI_StereoType_None = 0"
definition INCHI_StereoType_DoubleBond :: int where "INCHI_StereoType_DoubleBond = 1"
definition INCHI_StereoType_Tetrahedral :: int where "INCHI_StereoType_Tetrahedral = 2"
definition INCHI_StereoType_Allene :: int where "INCHI_StereoType_Allene = 3"

subsection \<open>Return codes\<close>

text \<open>
  \<^verbatim>\<open>
  #define inchi_Ret_OKAY         0   /* Success */
  #define inchi_Ret_WARNING      1   /* Success with warnings */
  #define inchi_Ret_ERROR        2   /* Error */
  #define inchi_Ret_FATAL        3   /* Severe error */
  #define inchi_Ret_UNKNOWN      4   /* Unknown error */
  #define inchi_Ret_BUSY         5   /* Previous call has not returned yet */
  #define inchi_Ret_EOF          6   /* No structural data has been provided */
  \<close>
\<close>

definition inchi_Ret_OKAY :: int where "inchi_Ret_OKAY = 0"
definition inchi_Ret_WARNING :: int where "inchi_Ret_WARNING = 1"
definition inchi_Ret_ERROR :: int where "inchi_Ret_ERROR = 2"
definition inchi_Ret_FATAL :: int where "inchi_Ret_FATAL = 3"
definition inchi_Ret_UNKNOWN :: int where "inchi_Ret_UNKNOWN = 4"
definition inchi_Ret_BUSY :: int where "inchi_Ret_BUSY = 5"
definition inchi_Ret_EOF :: int where "inchi_Ret_EOF = 6"

subsection \<open>InChIKey return codes\<close>

definition INCHIKEY_OK :: int where "INCHIKEY_OK = 0"
definition INCHIKEY_UNKNOWN_ERROR :: int where "INCHIKEY_UNKNOWN_ERROR = 1"
definition INCHIKEY_EMPTY_INPUT :: int where "INCHIKEY_EMPTY_INPUT = 2"
definition INCHIKEY_INVALID_INCHI_PREFIX :: int where "INCHIKEY_INVALID_INCHI_PREFIX = 3"
definition INCHIKEY_NOT_ENOUGH_MEMORY :: int where "INCHIKEY_NOT_ENOUGH_MEMORY = 4"
definition INCHIKEY_INVALID_INCHI :: int where "INCHIKEY_INVALID_INCHI = 5"
definition INCHIKEY_INVALID_STD_INCHI :: int where "INCHIKEY_INVALID_STD_INCHI = 6"

subsection \<open>Structures\<close>

text \<open>
  \<^verbatim>\<open>
  typedef struct tagInchiAtom {
      char          elname[ATOM_EL_LEN];  /* element name */
      double        x;                     /* x coordinate */
      double        y;                     /* y coordinate */
      double        z;                     /* z coordinate */
      AT_NUM        neighbor[20];          /* neighbor atom numbers (0-based) */
      AT_NUM        bond_type[20];         /* bond types */
      S_CHAR        bond_stereo[20];       /* bond stereo */
      AT_NUM        num_bonds;             /* number of bonds */
      S_CHAR        num_iso_H[NUM_H_ISOTOPES+1]; /* number of implicit H atoms */
      S_CHAR        isotopic_mass;         /* isotopic mass shift */
      S_CHAR        radical;               /* radical */
      S_CHAR        charge;                /* charge */
  } inchi_Atom;
  \<close>
\<close>

definition inchi_Atom :: ctype where
  "inchi_Atom = C_struct ''tagInchiAtom''
     [(''elname'', C_array C_char ATOM_EL_LEN),
      (''x'', C_double),
      (''y'', C_double),
      (''z'', C_double),
      (''neighbor'', C_array AT_NUM 20),
      (''bond_type'', C_array AT_NUM 20),
      (''bond_stereo'', C_array S_CHAR 20),
      (''num_bonds'', AT_NUM),
      (''num_iso_H'', C_array S_CHAR (NUM_H_ISOTOPES + 1)),
      (''isotopic_mass'', S_CHAR),
      (''radical'', S_CHAR),
      (''charge'', S_CHAR)]"

text \<open>
  \<^verbatim>\<open>
  typedef struct tagINCHIStereo0D {
      AT_NUM  neighbor[4];      /* atoms */
      AT_NUM  central_atom;     /* central atom (for tetrahedral) */
      S_CHAR  type;             /* stereo type */
      S_CHAR  parity;           /* parity */
  } inchi_Stereo0D;
  \<close>
\<close>

definition inchi_Stereo0D :: ctype where
  "inchi_Stereo0D = C_struct ''tagINCHIStereo0D''
     [(''neighbor'', C_array AT_NUM 4),
      (''central_atom'', AT_NUM),
      (''type'', S_CHAR),
      (''parity'', S_CHAR)]"

text \<open>
  \<^verbatim>\<open>
  typedef struct tagINCHI_Input {
      inchi_Atom*     atom;         /* array of atoms */
      inchi_Stereo0D* stereo0D;     /* array of stereo elements */
      char*           szOptions;    /* options string */
      AT_NUM          num_atoms;    /* number of atoms */
      AT_NUM          num_stereo0D; /* number of stereo elements */
  } inchi_Input;
  \<close>
\<close>

definition inchi_Input :: ctype where
  "inchi_Input = C_struct ''tagINCHI_Input''
     [(''atom'', C_ptr inchi_Atom),
      (''stereo0D'', C_ptr inchi_Stereo0D),
      (''szOptions'', C_ptr C_char),
      (''num_atoms'', AT_NUM),
      (''num_stereo0D'', AT_NUM)]"

text \<open>
  \<^verbatim>\<open>
  typedef struct tagINCHI_Output {
      char* szInChI;      /* InChI string */
      char* szAuxInfo;    /* Auxiliary information */
      char* szMessage;    /* Messages */
      char* szLog;        /* Log output */
  } inchi_Output;
  \<close>
\<close>

definition inchi_Output :: ctype where
  "inchi_Output = C_struct ''tagINCHI_Output''
     [(''szInChI'', C_ptr C_char),
      (''szAuxInfo'', C_ptr C_char),
      (''szMessage'', C_ptr C_char),
      (''szLog'', C_ptr C_char)]"

text \<open>
  \<^verbatim>\<open>
  typedef struct tagINCHI_InputINCHI {
      char* szInChI;      /* InChI string */
      char* szOptions;    /* Options */
  } inchi_InputINCHI;
  \<close>
\<close>

definition inchi_InputINCHI :: ctype where
  "inchi_InputINCHI = C_struct ''tagINCHI_InputINCHI''
     [(''szInChI'', C_ptr C_char),
      (''szOptions'', C_ptr C_char)]"

text \<open>
  \<^verbatim>\<open>
  typedef struct tagINCHI_OutputStruct {
      inchi_Atom*     atom;         /* array of atoms */
      inchi_Stereo0D* stereo0D;     /* array of stereo elements */
      AT_NUM          num_atoms;    /* number of atoms */
      AT_NUM          num_stereo0D; /* number of stereo elements */
      char*           szMessage;    /* Messages */
      char*           szLog;        /* Log output */
      unsigned long   WarningFlags[2][2]; /* warning flags */
  } inchi_OutputStruct;
  \<close>
\<close>

definition inchi_OutputStruct :: ctype where
  "inchi_OutputStruct = C_struct ''tagINCHI_OutputStruct''
     [(''atom'', C_ptr inchi_Atom),
      (''stereo0D'', C_ptr inchi_Stereo0D),
      (''num_atoms'', AT_NUM),
      (''num_stereo0D'', AT_NUM),
      (''szMessage'', C_ptr C_char),
      (''szLog'', C_ptr C_char),
      (''WarningFlags'', C_array (C_array C_unsigned_long 2) 2)]"

subsection \<open>Function prototypes\<close>

text \<open>\<^verbatim>\<open>int GetINCHI(inchi_Input* inp, inchi_Output* out);\<close>\<close>

definition GetINCHI :: prototype where
  "GetINCHI = \<lparr>ret_type = C_int,
     params = [(''inp'', C_ptr inchi_Input), (''out'', C_ptr inchi_Output)]\<rparr>"

text \<open>\<^verbatim>\<open>void FreeINCHI(inchi_Output* out);\<close>\<close>

definition FreeINCHI :: prototype where
  "FreeINCHI = \<lparr>ret_type = C_void, params = [(''out'', C_ptr inchi_Output)]\<rparr>"

text \<open>\<^verbatim>\<open>int GetStructFromINCHI(inchi_InputINCHI* inp, inchi_OutputStruct* out);\<close>\<close>

definition GetStructFromINCHI :: prototype where
  "GetStructFromINCHI = \<lparr>ret_type = C_int,
     params = [(''inp'', C_ptr inchi_InputINCHI), (''out'', C_ptr inchi_OutputStruct)]\<rparr>"

text \<open>\<^verbatim>\<open>void FreeStructFromINCHI(inchi_OutputStruct* out);\<close>\<close>

definition FreeStructFromINCHI :: prototype where
  "FreeStructFromINCHI = \<lparr>ret_type = C_void, params = [(''out'', C_ptr inchi_OutputStruct)]\<rparr>"

text \<open>
  \<^verbatim>\<open>
  int GetINCHIKeyFromINCHI(
      const char* szINCHISource,
      const int xtra1,
      const int xtra2,
      char* szINCHIKey,
      char* szXtra1,
      char* szXtra2
  );
  \<close>
\<close>

definition GetINCHIKeyFromINCHI :: prototype where
  "GetINCHIKeyFromINCHI = \<lparr>ret_type = C_int,
     params =
       [(''szINCHISource'', C_ptr (C_const C_char)),
        (''xtra1'', C_const C_int),
        (''xtra2'', C_const C_int),
        (''szINCHIKey'', C_ptr C_char),
        (''szXtra1'', C_ptr C_char),
        (''szXtra2'', C_ptr C_char)]\<rparr>"

text \<open>\<^verbatim>\<open>const char* GetINCHI_Version(void);\<close>\<close>

definition GetINCHI_Version :: prototype where
  "GetINCHI_Version = \<lparr>ret_type = C_ptr (C_const C_char), params = []\<rparr>"

section \<open>Properties of the declared interface\<close>

text \<open>The defining equations of each family of constants, for unfolding.\<close>

lemmas basic_types = AT_NUM_def NUM_H_def S_CHAR_def U_CHAR_def S_SHORT_def U_SHORT_def

lemmas limits = ATOM_EL_LEN_def NUM_H_ISOTOPES_def ISOTOPIC_SHIFT_FLAG_def ISOTOPIC_SHIFT_MAX_def

lemmas bond_types =
  INCHI_BOND_TYPE_NONE_def INCHI_BOND_TYPE_SINGLE_def INCHI_BOND_TYPE_DOUBLE_def
  INCHI_BOND_TYPE_TRIPLE_def INCHI_BOND_TYPE_ALTERN_def

lemmas bond_stereos =
  INCHI_BOND_STEREO_NONE_def INCHI_BOND_STEREO_SINGLE_1UP_def
  INCHI_BOND_STEREO_SINGLE_1DOWN_def INCHI_BOND_STEREO_SINGLE_2UP_def
  INCHI_BOND_STEREO_SINGLE_2DOWN_def INCHI_BOND_STEREO_SINGLE_1EITHER_def
  INCHI_BOND_STEREO_SINGLE_2EITHER_def INCHI_BOND_STEREO_DOUBLE_EITHER_def

lemmas parities =
  INCHI_PARITY_NONE_def INCHI_PARITY_ODD_def INCHI_PARITY_EVEN_def
  INCHI_PARITY_UNKNOWN_def INCHI_PARITY_UNDEFINED_def

lemmas stereo_types =
  INCHI_StereoType_None_def INCHI_StereoType_DoubleBond_def
  INCHI_StereoType_Tetrahedral_def INCHI_StereoType_Allene_def

lemmas ret_codes =
  inchi_Ret_OKAY_def inchi_Ret_WARNING_def inchi_Ret_ERROR_def inchi_Ret_FATAL_def
  inchi_Ret_UNKNOWN_def inchi_Ret_BUSY_def inchi_Ret_EOF_def

lemmas inchikey_codes =
  INCHIKEY_OK_def INCHIKEY_UNKNOWN_ERROR_def INCHIKEY_EMPTY_INPUT_def
  INCHIKEY_INVALID_INCHI_PREFIX_def INCHIKEY_NOT_ENOUGH_MEMORY_def
  INCHIKEY_INVALID_INCHI_def INCHIKEY_INVALID_STD_INCHI_def

subsection \<open>Return codes\<close>

text \<open>
  C2. The seven return codes of structure conversion are the consecutive integers 0 to 6
  in the order success, success with warnings, error, severe (fatal) error, unknown error,
  busy (the previous call has not returned yet) and end of input (no structural data has
  been provided).
\<close>

theorem inchi_Ret_values:
  "[inchi_Ret_OKAY, inchi_Ret_WARNING, inchi_Ret_ERROR, inchi_Ret_FATAL,
    inchi_Ret_UNKNOWN, inchi_Ret_BUSY, inchi_Ret_EOF] = [0..6]"
  by (simp add: ret_codes upto_rec1)

text \<open>
  C3. The seven return codes of InChIKey derivation are the consecutive integers 0 to 6 in
  the order success, unknown error, empty input, invalid InChI prefix, not enough memory,
  invalid InChI and invalid standard InChI.
\<close>

theorem INCHIKEY_values:
  "[INCHIKEY_OK, INCHIKEY_UNKNOWN_ERROR, INCHIKEY_EMPTY_INPUT,
    INCHIKEY_INVALID_INCHI_PREFIX, INCHIKEY_NOT_ENOUGH_MEMORY, INCHIKEY_INVALID_INCHI,
    INCHIKEY_INVALID_STD_INCHI] = [0..6]"
  by (simp add: inchikey_codes upto_rec1)

subsection \<open>Bond and stereo codes\<close>

text \<open>
  C5. The five bond-type constants take the values 0 to 4: none 0, single 1, double 2,
  triple 3 and alternating (aromatic) 4.
\<close>

theorem INCHI_BOND_TYPE_values:
  "[INCHI_BOND_TYPE_NONE, INCHI_BOND_TYPE_SINGLE, INCHI_BOND_TYPE_DOUBLE,
    INCHI_BOND_TYPE_TRIPLE, INCHI_BOND_TYPE_ALTERN] = [0..4]"
  by (simp add: bond_types upto_rec1)

text \<open>
  C4. The eight bond-stereo constants take exactly the values 0 to 7, the five parity
  constants exactly the values 0 to 4 and the four stereo-type constants exactly the values
  0 to 3; within each family no two constants have the same value.
\<close>

theorem stereo_code_sets:
  "set [INCHI_BOND_STEREO_NONE, INCHI_BOND_STEREO_SINGLE_1UP,
        INCHI_BOND_STEREO_SINGLE_1DOWN, INCHI_BOND_STEREO_SINGLE_2UP,
        INCHI_BOND_STEREO_SINGLE_2DOWN, INCHI_BOND_STEREO_SINGLE_1EITHER,
        INCHI_BOND_STEREO_SINGLE_2EITHER, INCHI_BOND_STEREO_DOUBLE_EITHER]
     = {0, 1, 2, 3, 4, 5, 6, 7}
   \<and> distinct [INCHI_BOND_STEREO_NONE, INCHI_BOND_STEREO_SINGLE_1UP,
        INCHI_BOND_STEREO_SINGLE_1DOWN, INCHI_BOND_STEREO_SINGLE_2UP,
        INCHI_BOND_STEREO_SINGLE_2DOWN, INCHI_BOND_STEREO_SINGLE_1EITHER,
        INCHI_BOND_STEREO_SINGLE_2EITHER, INCHI_BOND_STEREO_DOUBLE_EITHER]
   \<and> set [INCHI_PARITY_NONE, INCHI_PARITY_ODD, INCHI_PARITY_EVEN, INCHI_PARITY_UNKNOWN,
        INCHI_PARITY_UNDEFINED]
     = {0, 1, 2, 3, 4}
   \<and> distinct [INCHI_PARITY_NONE, INCHI_PARITY_ODD, INCHI_PARITY_EVEN,
        INCHI_PARITY_UNKNOWN, INCHI_PARITY_UNDEFINED]
   \<and> set [INCHI_StereoType_None, INCHI_StereoType_DoubleBond,
        INCHI_StereoType_Tetrahedral, INCHI_StereoType_Allene]
     = {0, 1, 2, 3}
   \<and> distinct [INCHI_StereoType_None, INCHI_StereoType_DoubleBond,
        INCHI_StereoType_Tetrahedral, INCHI_StereoType_Allene]"
proof -
  have stereo: "set [INCHI_BOND_STEREO_NONE, INCHI_BOND_STEREO_SINGLE_1UP,
        INCHI_BOND_STEREO_SINGLE_1DOWN, INCHI_BOND_STEREO_SINGLE_2UP,
        INCHI_BOND_STEREO_SINGLE_2DOWN, INCHI_BOND_STEREO_SINGLE_1EITHER,
        INCHI_BOND_STEREO_SINGLE_2EITHER, INCHI_BOND_STEREO_DOUBLE_EITHER]
     = {0, 1, 2, 3, 4, 5, 6, 7}"
    unfolding bond_stereos by auto
  have parity: "set [INCHI_PARITY_NONE, INCHI_PARITY_ODD, INCHI_PARITY_EVEN,
        INCHI_PARITY_UNKNOWN, INCHI_PARITY_UNDEFINED] = {0, 1, 2, 3, 4}"
    unfolding parities by simp
  have stype: "set [INCHI_StereoType_None, INCHI_StereoType_DoubleBond,
        INCHI_StereoType_Tetrahedral, INCHI_StereoType_Allene] = {0, 1, 2, 3}"
    unfolding stereo_types by simp
  show ?thesis
    unfolding stereo parity stype
    by (simp add: bond_stereos parities stereo_types)
qed

subsection \<open>Record layouts\<close>

text \<open>
  The array members of the atom record: the element name has \<open>ATOM_EL_LEN = 6\<close> entries, and
  the three per-bond arrays \<open>neighbor\<close>, \<open>bond_type\<close> and \<open>bond_stereo\<close> have 20 entries each,
  next to the scalar bond count \<open>num_bonds\<close>. The header gives the sizes only: which of the
  20 entries a caller or the library reads is not declared in it.
\<close>

lemma inchi_Atom_array_lengths:
  "field_len inchi_Atom ''elname'' = Some ATOM_EL_LEN
   \<and> ATOM_EL_LEN = 6
   \<and> field_len inchi_Atom ''neighbor'' = Some 20
   \<and> field_len inchi_Atom ''bond_type'' = Some 20
   \<and> field_len inchi_Atom ''bond_stereo'' = Some 20
   \<and> field_type inchi_Atom ''num_bonds'' = Some AT_NUM"
  by (simp add: field_len_def field_type_def inchi_Atom_def ATOM_EL_LEN_def)

text \<open>
  The declared size of the array \<open>num_iso_H\<close> of the atom record: \<open>NUM_H_ISOTOPES + 1\<close>
  entries with \<open>NUM_H_ISOTOPES = 3\<close>, so 4 entries. The header's comment on the member is
  \<^verbatim>\<open>/* number of implicit H atoms */\<close>; it does not say which entry holds which count.
\<close>

lemma num_iso_H_length:
  "field_type inchi_Atom ''num_iso_H'' = Some (C_array S_CHAR (NUM_H_ISOTOPES + 1))
   \<and> field_len inchi_Atom ''num_iso_H'' = Some (NUM_H_ISOTOPES + 1)
   \<and> NUM_H_ISOTOPES = 3
   \<and> field_len inchi_Atom ''num_iso_H'' = Some 4"
  by (simp add: field_len_def field_type_def inchi_Atom_def NUM_H_ISOTOPES_def)

text \<open>
  C6. The stereo descriptor record \<open>inchi_Stereo0D\<close> has exactly four members: an array
  \<open>neighbor\<close> of four atom numbers, the atom number \<open>central_atom\<close>, the stereo-type tag
  \<open>type\<close> and the parity tag \<open>parity\<close>.
\<close>

theorem inchi_Stereo0D_members:
  "field_names inchi_Stereo0D = [''neighbor'', ''central_atom'', ''type'', ''parity'']
   \<and> field_type inchi_Stereo0D ''neighbor'' = Some (C_array AT_NUM 4)
   \<and> field_len inchi_Stereo0D ''neighbor'' = Some 4
   \<and> field_type inchi_Stereo0D ''central_atom'' = Some AT_NUM
   \<and> field_type inchi_Stereo0D ''type'' = Some S_CHAR
   \<and> field_type inchi_Stereo0D ''parity'' = Some S_CHAR
   \<and> length (members inchi_Stereo0D) = 4"
  by (simp add: field_names_def field_len_def field_type_def inchi_Stereo0D_def)

text \<open>
  C10. The structure-output record \<open>inchi_OutputStruct\<close> has seven members: the atom and
  stereo arrays (as pointers), their two counts, the message and log strings, and as its
  last member \<open>WarningFlags\<close>, an array of two arrays of two \<^verbatim>\<open>unsigned long\<close>.
\<close>

theorem inchi_OutputStruct_members:
  "field_names inchi_OutputStruct =
     [''atom'', ''stereo0D'', ''num_atoms'', ''num_stereo0D'', ''szMessage'', ''szLog'',
      ''WarningFlags'']
   \<and> field_type inchi_OutputStruct ''atom'' = Some (C_ptr inchi_Atom)
   \<and> field_type inchi_OutputStruct ''stereo0D'' = Some (C_ptr inchi_Stereo0D)
   \<and> field_type inchi_OutputStruct ''num_atoms'' = Some AT_NUM
   \<and> field_type inchi_OutputStruct ''num_stereo0D'' = Some AT_NUM
   \<and> field_type inchi_OutputStruct ''szMessage'' = Some (C_ptr C_char)
   \<and> field_type inchi_OutputStruct ''szLog'' = Some (C_ptr C_char)
   \<and> last (members inchi_OutputStruct) =
       (''WarningFlags'', C_array (C_array C_unsigned_long 2) 2)
   \<and> field_len inchi_OutputStruct ''WarningFlags'' = Some 2
   \<and> Option.bind (field_type inchi_OutputStruct ''WarningFlags'') elem_type =
       Some (C_array C_unsigned_long 2)"
  by (simp add: field_names_def field_len_def field_type_def inchi_OutputStruct_def)

subsection \<open>The InChIKey prototype\<close>

text \<open>
  The declared parameters of \<open>GetINCHIKeyFromINCHI\<close>: six parameters and an \<^verbatim>\<open>int\<close> result.
  The source string \<open>szINCHISource\<close> (pointer to const characters) and the two integer
  flags \<open>xtra1\<close> and \<open>xtra2\<close> are the parameters declared const; \<open>szINCHIKey\<close>, \<open>szXtra1\<close>
  and \<open>szXtra2\<close> are the pointers to non-const characters. The function's body is not part
  of the header, so what a call reads or writes is not covered.
\<close>

lemma GetINCHIKeyFromINCHI_parameters:
  "map fst (params GetINCHIKeyFromINCHI) =
     [''szINCHISource'', ''xtra1'', ''xtra2'', ''szINCHIKey'', ''szXtra1'', ''szXtra2'']
   \<and> map_of (params GetINCHIKeyFromINCHI) ''szINCHISource'' = Some (C_ptr (C_const C_char))
   \<and> map_of (params GetINCHIKeyFromINCHI) ''xtra1'' = Some (C_const C_int)
   \<and> map_of (params GetINCHIKeyFromINCHI) ''xtra2'' = Some (C_const C_int)
   \<and> const_params GetINCHIKeyFromINCHI = [''szINCHISource'', ''xtra1'', ''xtra2'']
   \<and> nonconst_pointer_params GetINCHIKeyFromINCHI = [''szINCHIKey'', ''szXtra1'', ''szXtra2'']
   \<and> map snd (filter (\<lambda>q. nonconst_pointer (snd q)) (params GetINCHIKeyFromINCHI)) =
       [C_ptr C_char, C_ptr C_char, C_ptr C_char]
   \<and> ret_type GetINCHIKeyFromINCHI = C_int"
  by (simp add: const_params_def nonconst_pointer_params_def GetINCHIKeyFromINCHI_def)

end
